theory Spec2Isabelle
  imports Main "HOL-Library.Word"
begin

section \<open>The traced target and the operating system\<close>

text \<open>
  Package \<open>proctl\<close> drives another process through the Linux trace facility. The
  functions of \<open>proctl_linux_amd64.go\<close> are modelled with explicit state passing: each
  takes the session (\<open>DebuggedProcess\<close>) and the state of the world outside the
  debugger, and returns its result with both updated.

  The world holds the target (its memory and registers), the list of system calls the
  debugger has issued so far, the replies the operating system is going to give, and what
  the debugger has printed. The replies are unconstrained: a theorem for every world
  holds for every behaviour of the operating system and of the target.
\<close>

type_synonym addr = "64 word"
type_synonym byte = "8 word"

datatype Errno = Errno nat

text \<open>
  \<open>syscall.PtraceRegs\<close>: of the register file the source reads the program counter only
  (\<open>regs.PC()\<close>, which is \<open>Rip\<close> on amd64).
\<close>

record PtraceRegs =
  Rip :: addr

definition PtraceRegs_PC :: "PtraceRegs \<Rightarrow> addr" where
  "PtraceRegs_PC r = Rip r"

text \<open>
  Modelled from the spec: \<open>os.ProcessState\<close> (package \<open>os\<close> is not part of the
  repository), the classified result of a wait, with the variants the specification's
  data model gives it.
\<close>

datatype ProcessState = Running | Stopped int | Exited int | Signalled int

record target =
  mem :: "addr \<Rightarrow> byte"
  regs :: PtraceRegs

datatype call =
    PTRACE_POKEDATA int addr "byte list"
  | PTRACE_SINGLESTEP int
  | PTRACE_CONT int int
  | PTRACE_GETREGS int
  | WAIT int

text \<open>
  The Go errors of the source. \<open>OSError\<close> is an error of a system call passed through;
  the others are the values built with \<open>fmt.Errorf\<close>: \<open>"No function named %s"\<close>,
  \<open>"Breakpoint already set"\<close>, \<open>"step failed: "\<close> and \<open>"Registers():"\<close> around the
  underlying error.
\<close>

datatype error =
    OSError Errno
  | NoFunctionNamed string
  | BreakpointAlreadySet
  | StepFailed error
  | RegistersFailed error

text \<open>What \<open>Step\<close> prints: \<open>"Stopped at: %s %s:%d\n"\<close> with function name, file and line.\<close>

datatype printed = StoppedAt string string int

record world =
  target :: target
  issued :: "call list"
  ptrace_replies :: "Errno option list"
  wait_replies :: "(Errno + ProcessState \<times> target) list"
  stdout :: "printed list"

definition issue :: "call \<Rightarrow> world \<Rightarrow> world" where
  "issue c w = w\<lparr>issued := issued w @ [c]\<rparr>"

text \<open>
  Modelled from the spec: the trace facility (\<open>syscall.PtracePokeData\<close>,
  \<open>PtraceSingleStep\<close>, \<open>PtraceCont\<close>, \<open>PtraceGetRegs\<close> and \<open>os.Process.Wait\<close>) belongs
  to the Go library and the kernel, not to the repository. The specification names its
  primitives: single-step, continue, write target memory, read the register file, and a
  blocking wait that returns the classified state; each can fail with an error of the
  operating system.

  A ptrace request takes the next scripted reply: \<open>None\<close> for success, \<open>Some e\<close> for the
  error number. An exhausted script answers success.
\<close>

definition ptrace_reply :: "world \<Rightarrow> error option \<times> world" where
  "ptrace_reply w =
     (case ptrace_replies w of
        [] \<Rightarrow> (None, w)
      | r # rs \<Rightarrow> (map_option OSError r, w\<lparr>ptrace_replies := rs\<rparr>))"

fun write_bytes :: "(addr \<Rightarrow> byte) \<Rightarrow> addr \<Rightarrow> byte list \<Rightarrow> (addr \<Rightarrow> byte)" where
  "write_bytes m a [] = m"
| "write_bytes m a (b # bs) = write_bytes (m(a := b)) (a + 1) bs"

text \<open>
  \<open>syscall.PtracePokeData(pid, addr, data)\<close> returns the count of bytes written and an
  error. On success every byte of \<open>data\<close> is in the target's memory from \<open>addr\<close> on; a
  failed request is taken to write nothing.
\<close>

definition PtracePokeData :: "int \<Rightarrow> addr \<Rightarrow> byte list \<Rightarrow> world \<Rightarrow> (nat \<times> error option) \<times> world" where
  "PtracePokeData pid a data w =
     (case ptrace_reply (issue (PTRACE_POKEDATA pid a data) w) of
        (Some e, w') \<Rightarrow> ((0, Some e), w')
      | (None, w') \<Rightarrow>
          ((length data, None),
           w'\<lparr>target := (target w')\<lparr>mem := write_bytes (mem (target w')) a data\<rparr>\<rparr>))"

definition PtraceSingleStep :: "int \<Rightarrow> world \<Rightarrow> error option \<times> world" where
  "PtraceSingleStep pid w = ptrace_reply (issue (PTRACE_SINGLESTEP pid) w)"

definition PtraceCont :: "int \<Rightarrow> int \<Rightarrow> world \<Rightarrow> error option \<times> world" where
  "PtraceCont pid signal w = ptrace_reply (issue (PTRACE_CONT pid signal) w)"

text \<open>\<open>syscall.PtraceGetRegs(pid, regsout)\<close>: on success the target's registers.\<close>

definition PtraceGetRegs :: "int \<Rightarrow> world \<Rightarrow> (error + PtraceRegs) \<times> world" where
  "PtraceGetRegs pid w =
     (case ptrace_reply (issue (PTRACE_GETREGS pid) w) of
        (Some e, w') \<Rightarrow> (Inl e, w')
      | (None, w') \<Rightarrow> (Inr (regs (target w')), w'))"

text \<open>
  \<open>Process.Wait()\<close> blocks until the target changes state. The scripted reply is an
  error, or the new process state together with the target as it is after having run.
  With nothing left to wait for, the call fails (\<open>ECHILD\<close>, error number 10).
\<close>

definition ProcessWait :: "int \<Rightarrow> world \<Rightarrow> (error + ProcessState) \<times> world" where
  "ProcessWait pid w =
     (let w1 = issue (WAIT pid) w in
      case wait_replies w1 of
        [] \<Rightarrow> (Inl (OSError (Errno 10)), w1)
      | Inl e # rs \<Rightarrow> (Inl (OSError e), w1\<lparr>wait_replies := rs\<rparr>)
      | Inr (ps, t) # rs \<Rightarrow> (Inr ps, w1\<lparr>wait_replies := rs, target := t\<rparr>))"

section \<open>The runtime symbol table\<close>

text \<open>
  Modelled from the spec: package \<open>debug/gosym\<close> (the types \<open>Table\<close>, \<open>Func\<close>,
  \<open>LineTable\<close> and the methods \<open>LookupFunc\<close> and \<open>PCToLine\<close>) is a dependency, not
  part of the repository. The specification describes the table as entries of function
  name, entry address, address range and a (file, line) mapping over the range, with a
  lookup by exact name and an address resolution that yields no function for an address
  outside every known function.

  A \<open>Func\<close> has its entry address (\<open>Entry\<close>), the end of its address range (\<open>End\<close>)
  and a pointer to a line table, which has a starting address (\<open>PC\<close>) and a starting
  line of its own. \<open>Entry\<close> and \<open>LineTable.PC\<close> are separate fields: a function's line
  table may be its own part of the table, starting at its entry, or the one table of the
  whole program, which starts where \<open>obtainGoSymbols\<close> anchors it,
  \<open>gosym.NewLineTable(pclndat, dbp.Executable.Section(".text").Addr)\<close>: at the start of
  the code section. Of a \<open>Func\<close> the source reads \<open>fn.Name\<close>, \<open>fn.LineTable.PC\<close> and
  \<open>fn.LineTable.Line\<close>.
\<close>

record LineTable =
  PC :: addr
  Line :: int

record Func =
  Name :: string
  Entry :: addr
  End :: addr
  LineTable :: LineTable

record Table =
  Funcs :: "Func list"
  Lines :: "(addr \<times> string \<times> int) list"

text \<open>
  Modelled from the spec: \<open>Table.LookupFunc\<close> of \<open>debug/gosym\<close>, the lookup by exact
  name; no function when no entry has the name.
\<close>

definition LookupFunc :: "Table \<Rightarrow> string \<Rightarrow> Func option" where
  "LookupFunc t name = find (\<lambda>f. Name f = name) (Funcs t)"

text \<open>
  Modelled from the spec: \<open>Table.PCToFunc\<close> of \<open>debug/gosym\<close>, the function whose address
  range, from \<open>Entry\<close> up to \<open>End\<close>, holds \<open>pc\<close>; none for an address outside every known
  function.
\<close>

definition PCToFunc :: "Table \<Rightarrow> addr \<Rightarrow> Func option" where
  "PCToFunc t pc = find (\<lambda>f. Entry f \<le> pc \<and> pc < End f) (Funcs t)"

text \<open>
  Modelled from the spec: the (file, line) interval that holds \<open>pc\<close>, read from the
  address-sorted transitions; the zero values when there is none.
\<close>

fun file_line :: "(addr \<times> string \<times> int) list \<Rightarrow> addr \<Rightarrow> string \<times> int" where
  "file_line [] pc = ([], 0)"
| "file_line ((a, f, l) # ls) pc =
     (if a \<le> pc \<and> (case ls of [] \<Rightarrow> True | (a', _) # _ \<Rightarrow> pc < a') then (f, l)
      else file_line ls pc)"

text \<open>
  Modelled from the spec: \<open>Table.PCToLine\<close> of \<open>debug/gosym\<close> returns file, line and
  function; the function is nil (and file and line are the zero values) when no function
  owns \<open>pc\<close>.
\<close>

definition PCToLine :: "Table \<Rightarrow> addr \<Rightarrow> string \<times> int \<times> Func option" where
  "PCToLine t pc =
     (case PCToFunc t pc of
        None \<Rightarrow> ([], 0, None)
      | Some fn \<Rightarrow> (fst (file_line (Lines t) pc), snd (file_line (Lines t) pc), Some fn))"

section \<open>The debug session\<close>

record BreakPoint =
  FunctionName :: string
  Line :: int
  Addr :: addr

text \<open>
  \<open>DebuggedProcess\<close>. \<open>Process\<close> is the handle of \<open>os.FindProcess\<close>, the process id it
  waits on. The fields \<open>Executable\<close> and \<open>Symbols\<close> are written while the executable is
  loaded and read by none of the operations below; they are left out.
\<close>

record DebuggedProcess =
  Pid :: int
  Regs :: PtraceRegs
  Process :: int
  ProcessState :: ProcessState
  GoSymTable :: Table
  BreakPoints :: "string \<rightharpoonup> BreakPoint"

text \<open>\<open>Registers\<close>: obtains register values from the debugged process into \<open>dbp.Regs\<close>.\<close>

definition Registers :: "DebuggedProcess \<Rightarrow> world \<Rightarrow> (error + PtraceRegs) \<times> DebuggedProcess \<times> world" where
  "Registers dbp w =
     (case PtraceGetRegs (Pid dbp) w of
        (Inl err, w') \<Rightarrow> (Inl (RegistersFailed err), dbp, w')
      | (Inr r, w') \<Rightarrow> (Inr r, dbp\<lparr>Regs := r\<rparr>, w'))"

text \<open>The bytes \<open>Break\<close> writes: \<open>int3 = []byte{'0', 'x', 'C', 'C'}\<close>.\<close>

definition int3 :: "byte list" where
  "int3 = map of_char [CHR ''0'', CHR ''x'', CHR ''C'', CHR ''C'']"

text \<open>\<open>Break\<close>: sets a breakpoint in the running process.\<close>

definition Break :: "DebuggedProcess \<Rightarrow> string \<Rightarrow> world \<Rightarrow> (error + BreakPoint) \<times> DebuggedProcess \<times> world" where
  "Break dbp fname w =
     (case LookupFunc (GoSymTable dbp) fname of
        None \<Rightarrow> (Inl (NoFunctionNamed fname), dbp, w)
      | Some fn \<Rightarrow>
          (case BreakPoints dbp fname of
             Some _ \<Rightarrow> (Inl BreakpointAlreadySet, dbp, w)
           | None \<Rightarrow>
               (case PtracePokeData (Pid dbp) (PC (LineTable fn)) int3 w of
                  ((_, Some err), w') \<Rightarrow> (Inl err, dbp, w')
                | ((_, None), w') \<Rightarrow>
                    (let breakpoint =
                       \<lparr>FunctionName = Name fn,
                        Line = LineTable.Line (LineTable fn),
                        Addr = PC (LineTable fn)\<rparr>
                     in (Inr breakpoint,
                         dbp\<lparr>BreakPoints := (BreakPoints dbp)(fname \<mapsto> breakpoint)\<rparr>,
                         w')))))"

text \<open>
  \<open>handleResult\<close> receives the error of the trace operation its caller has already
  issued.
\<close>

definition handleResult :: "DebuggedProcess \<Rightarrow> error option \<Rightarrow> world \<Rightarrow> error option \<times> DebuggedProcess \<times> world" where
  "handleResult dbp err w =
     (case err of
        Some e \<Rightarrow> (Some e, dbp, w)
      | None \<Rightarrow>
          (case ProcessWait (Process dbp) w of
             (Inl e, w') \<Rightarrow> (Some e, dbp, w')
           | (Inr ps, w') \<Rightarrow> (None, dbp\<lparr>ProcessState := ps\<rparr>, w')))"

text \<open>\<open>Continue\<close>: continue process until next breakpoint.\<close>

definition Continue :: "DebuggedProcess \<Rightarrow> world \<Rightarrow> error option \<times> DebuggedProcess \<times> world" where
  "Continue dbp w =
     (case PtraceCont (Pid dbp) 0 w of (err, w') \<Rightarrow> handleResult dbp err w')"

text \<open>
  \<open>Step\<close>: steps through process. \<open>fn.Name\<close> on the function \<open>PCToLine\<close> returns is
  a field read through a pointer: a nil pointer is a run-time panic, raised before
  anything is printed.
\<close>

datatype 'a outcome = Returns 'a | Panics

definition Step :: "DebuggedProcess \<Rightarrow> world \<Rightarrow> error option outcome \<times> DebuggedProcess \<times> world" where
  "Step dbp w =
     (case PtraceSingleStep (Pid dbp) w of (err0, w1) \<Rightarrow>
       (case handleResult dbp err0 w1 of
          (Some err, dbp1, w2) \<Rightarrow> (Returns (Some (StepFailed err)), dbp1, w2)
        | (None, dbp1, w2) \<Rightarrow>
            (case Registers dbp1 w2 of
               (Inl err, dbp2, w3) \<Rightarrow> (Returns (Some err), dbp2, w3)
             | (Inr r, dbp2, w3) \<Rightarrow>
                 (case PCToLine (GoSymTable dbp2) (PtraceRegs_PC r) of
                    (f, l, None) \<Rightarrow> (Panics, dbp2, w3)
                  | (f, l, Some fn) \<Rightarrow>
                      (Returns None, dbp2,
                       w3\<lparr>stdout := stdout w3 @ [StoppedAt (Name fn) f l]\<rparr>)))))"

section \<open>Sessions the package can be in\<close>

text \<open>
  \<open>NewDebugProcess\<close> creates every session with \<open>BreakPoints: make(map[string]*BreakPoint)\<close>,
  the empty map; from there a session changes through the methods of the package only,
  whatever the world answers.
\<close>

inductive reachable :: "DebuggedProcess \<Rightarrow> bool" where
  new: "BreakPoints dbp = Map.empty \<Longrightarrow> reachable dbp"
| after_Break: "reachable dbp \<Longrightarrow> reachable (fst (snd (Break dbp fname w)))"
| after_Step: "reachable dbp \<Longrightarrow> reachable (fst (snd (Step dbp w)))"
| after_Continue: "reachable dbp \<Longrightarrow> reachable (fst (snd (Continue dbp w)))"
| after_Registers: "reachable dbp \<Longrightarrow> reachable (fst (snd (Registers dbp w)))"

text \<open>Every name with a breakpoint is a name of the symbol table.\<close>

definition known_breakpoints :: "DebuggedProcess \<Rightarrow> bool" where
  "known_breakpoints dbp \<longleftrightarrow> dom (BreakPoints dbp) \<subseteq> Name ` set (Funcs (GoSymTable dbp))"

text \<open>The addresses a write of \<open>bs\<close> from \<open>a\<close> on touches.\<close>

fun poked :: "addr \<Rightarrow> byte list \<Rightarrow> addr set" where
  "poked a [] = {}"
| "poked a (b # bs) = insert a (poked (a + 1) bs)"

section \<open>A concrete session\<close>

text \<open>
  A target with two functions, \<open>main.main\<close> at 0x401000 and \<open>main.compute\<close> at 0x4010a0,
  its code filled with 0x90, stopped at the entry of \<open>main.compute\<close>; process id 42. In
  this table every function has a line table of its own, which starts at its entry.
\<close>

definition the_table :: Table where
  "the_table =
     \<lparr>Funcs =
        [\<lparr>Name = ''main.main'', Entry = 0x401000, End = 0x401080,
          LineTable = \<lparr>PC = 0x401000, Line = 7\<rparr>\<rparr>,
         \<lparr>Name = ''main.compute'', Entry = 0x4010a0, End = 0x401100,
          LineTable = \<lparr>PC = 0x4010a0, Line = 21\<rparr>\<rparr>],
      Lines = [(0x401000, ''main.go'', 7), (0x4010a0, ''main.go'', 21)]\<rparr>"

definition new_session :: DebuggedProcess where
  "new_session =
     \<lparr>Pid = 42, Regs = \<lparr>Rip = 0\<rparr>, Process = 42, ProcessState = Stopped 19,
      GoSymTable = the_table, BreakPoints = Map.empty\<rparr>"

definition quiet_world :: world where
  "quiet_world =
     \<lparr>target = \<lparr>mem = (\<lambda>_. 0x90), regs = \<lparr>Rip = 0x4010a0\<rparr>\<rparr>, issued = [],
      ptrace_replies = [], wait_replies = [], stdout = []\<rparr>"

text \<open>The same world with another byte at the entry of \<open>main.compute\<close>.\<close>

definition other_world :: world where
  "other_world =
     quiet_world\<lparr>target := (target quiet_world)\<lparr>mem := (mem (target quiet_world))(0x4010a0 := 0x55)\<rparr>\<rparr>"

text \<open>Session and world after \<open>Break("main.compute")\<close>.\<close>

definition bp_compute :: BreakPoint where
  "bp_compute = \<lparr>FunctionName = ''main.compute'', Line = 21, Addr = 0x4010a0\<rparr>"

definition session_set :: DebuggedProcess where
  "session_set = new_session\<lparr>BreakPoints := [''main.compute'' \<mapsto> bp_compute]\<rparr>"

definition world_set :: world where
  "world_set =
     quiet_world
       \<lparr>target := (target quiet_world)\<lparr>mem := write_bytes (mem (target quiet_world)) 0x4010a0 int3\<rparr>,
        issued := [PTRACE_POKEDATA 42 0x4010a0 int3]\<rparr>"

text \<open>
  A session that has observed the exit of its target, and a world in which the target is
  gone: the next ptrace request fails with \<open>ESRCH\<close> (error number 3).
\<close>

definition session_exited :: DebuggedProcess where
  "session_exited = new_session\<lparr>ProcessState := Exited 0\<rparr>"

definition dead_world :: world where
  "dead_world = quiet_world\<lparr>ptrace_replies := [Some (Errno 3)]\<rparr>"

text \<open>
  The world after \<open>Break("main.compute")\<close> in which the target, once resumed, stops with
  \<open>SIGTRAP\<close> (signal 5) one byte past the entry of \<open>main.compute\<close>, as after a
  one-byte trap instruction there.
\<close>

definition trap_world :: world where
  "trap_world =
     world_set\<lparr>wait_replies :=
       [Inr (Stopped 5, \<lparr>mem = mem (target world_set), regs = \<lparr>Rip = 0x4010a1\<rparr>\<rparr>)]\<rparr>"

text \<open>A world in which the target, once resumed, stops at 0x500000, outside every function.\<close>

definition library_world :: world where
  "library_world =
     quiet_world\<lparr>wait_replies :=
       [Inr (Stopped 5, \<lparr>mem = mem (target quiet_world), regs = \<lparr>Rip = 0x500000\<rparr>\<rparr>)]\<rparr>"

text \<open>
  The same two functions in a table whose functions all point to the one line table of
  the program, which starts at the start of the code section, 0x401000, with line 0.
\<close>

definition program_table :: Table where
  "program_table =
     \<lparr>Funcs =
        [\<lparr>Name = ''main.main'', Entry = 0x401000, End = 0x401080,
          LineTable = \<lparr>PC = 0x401000, Line = 0\<rparr>\<rparr>,
         \<lparr>Name = ''main.compute'', Entry = 0x4010a0, End = 0x401100,
          LineTable = \<lparr>PC = 0x401000, Line = 0\<rparr>\<rparr>],
      Lines = [(0x401000, ''main.go'', 7), (0x4010a0, ''main.go'', 21)]\<rparr>"

definition program_session :: DebuggedProcess where
  "program_session = new_session\<lparr>GoSymTable := program_table\<rparr>"

section \<open>Facts about the model\<close>

lemmas syscall_defs =
  PtracePokeData_def PtraceSingleStep_def PtraceCont_def PtraceGetRegs_def ProcessWait_def
  ptrace_reply_def issue_def

lemmas op_defs = Step_def Continue_def handleResult_def Registers_def

lemmas example_defs =
  the_table_def new_session_def quiet_world_def other_world_def bp_compute_def
  session_set_def world_set_def session_exited_def dead_world_def trap_world_def
  library_world_def program_table_def program_session_def

lemma int3_bytes: "int3 = [0x30, 0x78, 0x43, 0x43]"
  by (simp add: int3_def)

lemma LookupFunc_None_iff: "LookupFunc t name = None \<longleftrightarrow> name \<notin> Name ` set (Funcs t)"
  by (auto simp: LookupFunc_def find_None_iff)

lemma write_bytes_outside: "x \<notin> poked a bs \<Longrightarrow> write_bytes m a bs x = m x"
  by (induction bs arbitrary: m a) auto

lemma write_bytes_agree:
  "(\<And>x. x \<notin> poked a bs \<Longrightarrow> m1 x = m2 x) \<Longrightarrow> write_bytes m1 a bs = write_bytes m2 a bs"
proof (induction bs arbitrary: m1 m2 a)
  case Nil
  then show ?case by auto
next
  case (Cons b bs)
  have "write_bytes (m1(a := b)) (a + 1) bs = write_bytes (m2(a := b)) (a + 1) bs"
    by (rule Cons.IH) (use Cons.prems in auto)
  then show ?case by simp
qed

subsection \<open>What each system call does to the world\<close>

lemma PtraceSingleStep_effect:
  "PtraceSingleStep pid w = (r, w') \<Longrightarrow>
     issued w' = issued w @ [PTRACE_SINGLESTEP pid] \<and> target w' = target w
     \<and> wait_replies w' = wait_replies w \<and> stdout w' = stdout w"
  by (auto simp: PtraceSingleStep_def ptrace_reply_def issue_def split: list.splits)

lemma PtraceCont_effect:
  "PtraceCont pid sig w = (r, w') \<Longrightarrow>
     issued w' = issued w @ [PTRACE_CONT pid sig] \<and> target w' = target w
     \<and> wait_replies w' = wait_replies w \<and> stdout w' = stdout w"
  by (auto simp: PtraceCont_def ptrace_reply_def issue_def split: list.splits)

lemma PtraceGetRegs_effect:
  "PtraceGetRegs pid w = (r, w') \<Longrightarrow>
     issued w' = issued w @ [PTRACE_GETREGS pid] \<and> target w' = target w
     \<and> wait_replies w' = wait_replies w \<and> stdout w' = stdout w"
  by (auto simp: PtraceGetRegs_def ptrace_reply_def issue_def split: list.splits option.splits)

lemma ProcessWait_effect:
  "ProcessWait pid w = (r, w') \<Longrightarrow>
     issued w' = issued w @ [WAIT pid] \<and> stdout w' = stdout w
     \<and> (case r of
           Inl e \<Rightarrow> target w' = target w
         | Inr ps \<Rightarrow> (\<exists>t rs. wait_replies w = Inr (ps, t) # rs \<and> target w' = t))"
  by (auto simp: ProcessWait_def issue_def Let_def split: list.splits sum.splits)

subsection \<open>\<open>Step\<close> and \<open>Continue\<close> with \<open>handleResult\<close> and \<open>Registers\<close> inlined\<close>

lemma Step_eq:
  "Step dbp w =
    (case PtraceSingleStep (Pid dbp) w of
       (Some e, wa) \<Rightarrow> (Returns (Some (StepFailed e)), dbp, wa)
     | (None, wa) \<Rightarrow>
         (case ProcessWait (Process dbp) wa of
            (Inl e, wb) \<Rightarrow> (Returns (Some (StepFailed e)), dbp, wb)
          | (Inr ps, wb) \<Rightarrow>
              (case PtraceGetRegs (Pid dbp) wb of
                 (Inl e, wc) \<Rightarrow>
                   (Returns (Some (RegistersFailed e)), dbp\<lparr>ProcessState := ps\<rparr>, wc)
               | (Inr r, wc) \<Rightarrow>
                   (case PCToLine (GoSymTable dbp) (Rip r) of
                      (f, l, None) \<Rightarrow> (Panics, dbp\<lparr>ProcessState := ps, Regs := r\<rparr>, wc)
                    | (f, l, Some fn) \<Rightarrow>
                        (Returns None, dbp\<lparr>ProcessState := ps, Regs := r\<rparr>,
                         wc\<lparr>stdout := stdout wc @ [StoppedAt (Name fn) f l]\<rparr>)))))"
proof -
  obtain err0 wa where a: "PtraceSingleStep (Pid dbp) w = (err0, wa)" by force
  show ?thesis
  proof (cases err0)
    case (Some e)
    with a show ?thesis by (simp add: Step_def handleResult_def)
  next
    case None
    obtain x wb where b: "ProcessWait (Process dbp) wa = (x, wb)" by force
    show ?thesis
    proof (cases x)
      case (Inl e)
      with a b None show ?thesis by (simp add: Step_def handleResult_def)
    next
      case (Inr ps)
      obtain y wc where c: "PtraceGetRegs (Pid dbp) wb = (y, wc)" by force
      show ?thesis
      proof (cases y)
        case (Inl e)
        with a b c None Inr show ?thesis
          by (simp add: Step_def handleResult_def Registers_def)
      next
        case r: (Inr r)
        obtain f l fno where d: "PCToLine (GoSymTable dbp) (Rip r) = (f, l, fno)"
          by (cases "PCToLine (GoSymTable dbp) (Rip r)") auto
        with a b c None Inr r show ?thesis
          by (cases fno) (simp_all add: Step_def handleResult_def Registers_def PtraceRegs_PC_def)
      qed
    qed
  qed
qed

lemma Continue_eq:
  "Continue dbp w =
    (case PtraceCont (Pid dbp) 0 w of
       (Some e, wa) \<Rightarrow> (Some e, dbp, wa)
     | (None, wa) \<Rightarrow>
         (case ProcessWait (Process dbp) wa of
            (Inl e, wb) \<Rightarrow> (Some e, dbp, wb)
          | (Inr ps, wb) \<Rightarrow> (None, dbp\<lparr>ProcessState := ps\<rparr>, wb)))"
  by (simp add: Continue_def handleResult_def split: prod.split option.split)

subsection \<open>Breakpoints are set on known functions only\<close>

lemma Continue_frame:
  "BreakPoints (fst (snd (Continue dbp w))) = BreakPoints dbp"
  "GoSymTable (fst (snd (Continue dbp w))) = GoSymTable dbp"
  by (simp_all add: Continue_eq split: prod.splits option.splits sum.splits)

lemma Registers_frame:
  "BreakPoints (fst (snd (Registers dbp w))) = BreakPoints dbp"
  "GoSymTable (fst (snd (Registers dbp w))) = GoSymTable dbp"
  by (simp_all add: Registers_def split: prod.splits sum.splits)

lemma Step_frame:
  "BreakPoints (fst (snd (Step dbp w))) = BreakPoints dbp"
  "GoSymTable (fst (snd (Step dbp w))) = GoSymTable dbp"
  by (simp_all add: Step_eq split: prod.splits option.splits sum.splits)

lemma reachable_known: "reachable dbp \<Longrightarrow> known_breakpoints dbp"
proof (induction rule: reachable.induct)
  case (new dbp)
  then show ?case by (simp add: known_breakpoints_def)
next
  case (after_Break dbp fname w)
  then show ?case
    by (auto simp: known_breakpoints_def Break_def Let_def LookupFunc_None_iff[symmetric]
             split: option.splits prod.splits if_splits)
next
  case (after_Step dbp w)
  then show ?case by (simp add: known_breakpoints_def Step_frame)
next
  case (after_Continue dbp w)
  then show ?case by (simp add: known_breakpoints_def Continue_frame)
next
  case (after_Registers dbp w)
  then show ?case by (simp add: known_breakpoints_def Registers_frame)
qed

subsection \<open>The concrete session\<close>

lemma Break_example:
  "Break new_session ''main.compute'' quiet_world = (Inr bp_compute, session_set, world_set)"
  by (simp add: Break_def LookupFunc_def syscall_defs example_defs Let_def)

lemma reachable_session_set: "reachable session_set"
proof -
  have "reachable new_session" by (rule reachable.new) (simp add: new_session_def)
  then have "reachable (fst (snd (Break new_session ''main.compute'' quiet_world)))"
    by (rule reachable.after_Break)
  then show ?thesis by (simp add: Break_example)
qed

lemma Continue_example:
  "Continue session_set trap_world =
     (None, session_set\<lparr>ProcessState := Stopped 5\<rparr>,
      trap_world\<lparr>target := \<lparr>mem = mem (target world_set), regs = \<lparr>Rip = 0x4010a1\<rparr>\<rparr>,
                 issued := issued trap_world @ [PTRACE_CONT 42 0, WAIT 42],
                 wait_replies := []\<rparr>)"
  by (simp add: op_defs syscall_defs example_defs Let_def)

section \<open>Setting a breakpoint\<close>

text \<open>
  C1. The claim: the bytes \<open>Break\<close> writes at the resolved entry address are exactly one
  byte, the trap opcode 0xCC. The source's \<open>int3\<close> is the text \<open>0xCC\<close>: on the concrete
  session, \<open>Break("main.compute")\<close> sends the four bytes 0x30, 0x78, 0x43, 0x43 in its one
  memory write, and four bytes of the target's code change, none of them to 0xCC.
\<close>

theorem C1_Break_writes_opcode_text:
  "length int3 = 4
   \<and> issued (snd (snd (Break new_session ''main.compute'' quiet_world))) =
       [PTRACE_POKEDATA 42 0x4010a0 [0x30, 0x78, 0x43, 0x43]]
   \<and> map (mem (target quiet_world)) [0x4010a0, 0x4010a1, 0x4010a2, 0x4010a3]
       = [0x90, 0x90, 0x90, 0x90]
   \<and> map (mem (target (snd (snd (Break new_session ''main.compute'' quiet_world)))))
        [0x4010a0, 0x4010a1, 0x4010a2, 0x4010a3] = [0x30, 0x78, 0x43, 0x43]"
  by (simp add: Break_def LookupFunc_def syscall_defs example_defs Let_def int3_bytes)

text \<open>
  C2, as stated, fails. The claim: set followed by clear leaves the target's memory as it
  was, the saved original byte being written back. The source has no clear and a
  \<open>BreakPoint\<close> has no field for a saved byte. Two targets with different bytes at the
  entry address (0x90 and 0x55) are in one and the same state after the same successful
  \<open>Break\<close>: result, session and world are equal, so nothing run afterwards can give each
  its own byte back.
\<close>

theorem C2_original_byte_lost:
  "mem (target quiet_world) 0x4010a0 = 0x90 \<and> mem (target other_world) 0x4010a0 = 0x55
   \<and> fst (Break new_session ''main.compute'' quiet_world) = Inr bp_compute
   \<and> Break new_session ''main.compute'' other_world
       = Break new_session ''main.compute'' quiet_world"
  by (simp add: Break_def LookupFunc_def syscall_defs example_defs Let_def int3_bytes)

text \<open>
  C2, amended. A successful \<open>Break\<close> changes the target's memory only at the addresses it
  writes from the breakpoint's address on, and keeps no copy of what was there: its result,
  session and world are the same for every target that differs in those bytes only.
\<close>

theorem C2_Break_overwrites_unsaved:
  assumes "Break dbp fname w = (Inr bp, dbp', w')"
  shows "(\<forall>a. a \<notin> poked (Addr bp) int3 \<longrightarrow> mem (target w') a = mem (target w) a)
       \<and> (\<forall>m. (\<forall>a. a \<notin> poked (Addr bp) int3 \<longrightarrow> m a = mem (target w) a) \<longrightarrow>
             Break dbp fname (w\<lparr>target := (target w)\<lparr>mem := m\<rparr>\<rparr>) = (Inr bp, dbp', w'))"
proof -
  from assms obtain fn where fn: "LookupFunc (GoSymTable dbp) fname = Some fn"
    and free: "BreakPoints dbp fname = None"
    by (auto simp: Break_def split: option.splits)
  from assms fn free have addr: "Addr bp = PC (LineTable fn)"
    by (auto simp: Break_def Let_def split: option.splits prod.splits)
  have 1: "mem (target w') a = mem (target w) a" if "a \<notin> poked (Addr bp) int3" for a
    using assms fn free that addr
    by (auto simp: Break_def Let_def syscall_defs write_bytes_outside
             split: option.splits prod.splits list.splits)
  have 2: "Break dbp fname (w\<lparr>target := (target w)\<lparr>mem := m\<rparr>\<rparr>) = (Inr bp, dbp', w')"
    if "\<forall>a. a \<notin> poked (Addr bp) int3 \<longrightarrow> m a = mem (target w) a" for m
  proof -
    have "write_bytes m (PC (LineTable fn)) int3
            = write_bytes (mem (target w)) (PC (LineTable fn)) int3"
      by (rule write_bytes_agree) (use that addr in auto)
    with assms fn free show ?thesis
      by (auto simp: Break_def Let_def syscall_defs split: option.splits prod.splits list.splits)
  qed
  from 1 2 show ?thesis by blast
qed

theorem C2_Break_overwrites_unsaved_witness:
  "Break new_session ''main.compute'' quiet_world = (Inr bp_compute, session_set, world_set)
   \<and> mem (target world_set) 0x401000 = mem (target quiet_world) 0x401000
   \<and> Break new_session ''main.compute'' other_world = (Inr bp_compute, session_set, world_set)"
proof -
  have h: "Break new_session ''main.compute'' quiet_world = (Inr bp_compute, session_set, world_set)"
    by (rule Break_example)
  have out: "(0x401000 :: addr) \<notin> poked (Addr bp_compute) int3"
    by (simp add: bp_compute_def int3_bytes)
  have other: "other_world =
      quiet_world\<lparr>target := (target quiet_world)\<lparr>mem := (mem (target quiet_world))(0x4010a0 := 0x55)\<rparr>\<rparr>"
    by (simp add: other_world_def)
  have agree: "\<forall>a. a \<notin> poked (Addr bp_compute) int3 \<longrightarrow>
      ((mem (target quiet_world))(0x4010a0 := 0x55)) a = mem (target quiet_world) a"
    by (simp add: bp_compute_def int3_bytes)
  note t = C2_Break_overwrites_unsaved [OF h]
  from t out have a: "mem (target world_set) 0x401000 = mem (target quiet_world) 0x401000"
    by blast
  from t agree have
    "Break new_session ''main.compute''
       (quiet_world\<lparr>target := (target quiet_world)\<lparr>mem := (mem (target quiet_world))(0x4010a0 := 0x55)\<rparr>\<rparr>)
       = (Inr bp_compute, session_set, world_set)"
    by blast
  with other h a show ?thesis by simp
qed

text \<open>
  C3. In every session the package can be in, if a breakpoint is recorded for the name,
  \<open>Break\<close> on that name fails with "Breakpoint already set" and returns session and world
  as they were: no system call, so no write to the target's memory, and the same
  breakpoint map.
\<close>

theorem C3_second_Break_rejected:
  assumes "reachable dbp" and "BreakPoints dbp fname = Some bp"
  shows "Break dbp fname w = (Inl BreakpointAlreadySet, dbp, w)"
proof -
  from assms(1) have "known_breakpoints dbp" by (rule reachable_known)
  with assms(2) have "fname \<in> Name ` set (Funcs (GoSymTable dbp))"
    by (auto simp: known_breakpoints_def)
  then obtain fn where "LookupFunc (GoSymTable dbp) fname = Some fn"
    using LookupFunc_None_iff by fastforce
  with assms(2) show ?thesis by (simp add: Break_def)
qed

theorem C3_second_Break_rejected_witness:
  "reachable session_set \<and> BreakPoints session_set ''main.compute'' = Some bp_compute
   \<and> Break session_set ''main.compute'' world_set
       = (Inl BreakpointAlreadySet, session_set, world_set)"
proof -
  have r: "reachable session_set" by (rule reachable_session_set)
  have b: "BreakPoints session_set ''main.compute'' = Some bp_compute"
    by (simp add: session_set_def)
  from C3_second_Break_rejected [OF r b, of world_set] r b show ?thesis by simp
qed

text \<open>
  C4. For a name that no function of the symbol table has, \<open>Break\<close> fails with
  "No function named ..." and returns session and world as they were: the breakpoint map
  has the same entries and nothing is written to the target.
\<close>

theorem C4_Break_unknown_function:
  assumes "fname \<notin> Name ` set (Funcs (GoSymTable dbp))"
  shows "Break dbp fname w = (Inl (NoFunctionNamed fname), dbp, w)"
proof -
  from assms have "LookupFunc (GoSymTable dbp) fname = None"
    by (simp add: LookupFunc_None_iff)
  then show ?thesis by (simp add: Break_def)
qed

theorem C4_Break_unknown_function_witness:
  "''no_such_fn'' \<notin> Name ` set (Funcs (GoSymTable new_session))
   \<and> Break new_session ''no_such_fn'' quiet_world
       = (Inl (NoFunctionNamed ''no_such_fn''), new_session, quiet_world)
   \<and> BreakPoints new_session = Map.empty"
proof -
  have h: "''no_such_fn'' \<notin> Name ` set (Funcs (GoSymTable new_session))"
    by (simp add: new_session_def the_table_def)
  from C4_Break_unknown_function [OF h, of quiet_world] h show ?thesis
    by (simp add: new_session_def)
qed

text \<open>
  What a successful \<open>Break\<close> has done: the breakpoint's address is \<open>fn.LineTable.PC\<close> of
  the function \<open>LookupFunc\<close> returned, the one system call is the memory write to that
  address, and the breakpoint is recorded under the name.
\<close>

lemma Break_success:
  assumes "Break dbp fname w = (Inr bp, dbp', w')"
  shows "\<exists>fn. LookupFunc (GoSymTable dbp) fname = Some fn
           \<and> Addr bp = PC (LineTable fn)
           \<and> issued w' = issued w @ [PTRACE_POKEDATA (Pid dbp) (Addr bp) int3]
           \<and> target w' = (target w)\<lparr>mem := write_bytes (mem (target w)) (Addr bp) int3\<rparr>
           \<and> BreakPoints dbp' = (BreakPoints dbp)(fname \<mapsto> bp)"
  using assms
  by (auto simp: Break_def Let_def syscall_defs split: option.splits prod.splits list.splits)

text \<open>
  C9. The claim: the \<open>Addr\<close> of a breakpoint created by \<open>Break(f)\<close> is the entry address
  of \<open>f\<close> as resolved from the symbol table, and the bytes are written there. \<open>Break\<close>
  takes \<open>fn.LineTable.PC\<close>, not \<open>fn.Entry\<close>. On the table whose functions share the
  program's line table, \<open>Break("main.compute")\<close> succeeds with \<open>Addr\<close> 0x401000, the start
  of the code section, and writes there, while the entry of \<open>main.compute\<close> is 0x4010a0:
  the bytes land in \<open>main.main\<close>, and \<open>Break("main.main")\<close> yields the same address.
\<close>

theorem C9_Break_address_not_entry:
  "map_option Entry (LookupFunc (GoSymTable program_session) ''main.compute'') = Some 0x4010a0
   \<and> fst (Break program_session ''main.compute'' quiet_world)
       = Inr \<lparr>FunctionName = ''main.compute'', Line = 0, Addr = 0x401000\<rparr>
   \<and> issued (snd (snd (Break program_session ''main.compute'' quiet_world)))
       = [PTRACE_POKEDATA 42 0x401000 int3]
   \<and> map_option Name (PCToFunc (GoSymTable program_session) 0x401000) = Some ''main.main''
   \<and> fst (Break program_session ''main.main'' quiet_world)
       = Inr \<lparr>FunctionName = ''main.main'', Line = 0, Addr = 0x401000\<rparr>"
  by (simp add: Break_def LookupFunc_def PCToFunc_def syscall_defs example_defs Let_def)

section \<open>Driving the target\<close>

text \<open>
  C5, as stated, fails. The claim: with the process state \<open>Exited\<close> or \<open>Signalled\<close>,
  \<open>Step\<close> and \<open>Continue\<close> fail with a process-exited error without attempting a trace
  operation. The source never reads \<open>ProcessState\<close>: on a session that has observed
  \<open>Exited\<close>, \<open>Step\<close> issues \<open>PTRACE_SINGLESTEP\<close> and \<open>Continue\<close> issues
  \<open>PTRACE_CONT\<close>, and what they return is the error of the operating system (wrapped as
  "step failed" by \<open>Step\<close>).
\<close>

theorem C5_dead_target_traced:
  "ProcessState session_exited = Exited 0
   \<and> Step session_exited dead_world =
       (Returns (Some (StepFailed (OSError (Errno 3)))), session_exited,
        dead_world\<lparr>issued := [PTRACE_SINGLESTEP 42], ptrace_replies := []\<rparr>)
   \<and> Continue session_exited dead_world =
       (Some (OSError (Errno 3)), session_exited,
        dead_world\<lparr>issued := [PTRACE_CONT 42 0], ptrace_replies := []\<rparr>)"
  by (simp add: op_defs syscall_defs example_defs)

text \<open>
  C5, amended. In every session, whatever its process state, \<open>Step\<close> and \<open>Continue\<close>
  first issue their trace operation, and neither their result nor what they do to the
  world depends on the stored \<open>ProcessState\<close>. When the operating system fails the trace
  operation, as it does for a target that is gone, \<open>Continue\<close> fails with that error and
  \<open>Step\<close> with that error wrapped as "step failed"; nothing else is issued and the
  session is unchanged.
\<close>

theorem C5_trace_operation_first:
  "(\<exists>cs. issued (snd (snd (Step dbp w))) = issued w @ PTRACE_SINGLESTEP (Pid dbp) # cs)
   \<and> (\<exists>cs. issued (snd (snd (Continue dbp w))) = issued w @ PTRACE_CONT (Pid dbp) 0 # cs)
   \<and> fst (Step (dbp\<lparr>ProcessState := ps\<rparr>) w) = fst (Step dbp w)
   \<and> snd (snd (Step (dbp\<lparr>ProcessState := ps\<rparr>) w)) = snd (snd (Step dbp w))
   \<and> fst (Continue (dbp\<lparr>ProcessState := ps\<rparr>) w) = fst (Continue dbp w)
   \<and> snd (snd (Continue (dbp\<lparr>ProcessState := ps\<rparr>) w)) = snd (snd (Continue dbp w))
   \<and> (ptrace_replies w = Some e # rs \<longrightarrow>
        Step dbp w = (Returns (Some (StepFailed (OSError e))), dbp,
                      w\<lparr>issued := issued w @ [PTRACE_SINGLESTEP (Pid dbp)], ptrace_replies := rs\<rparr>)
        \<and> Continue dbp w = (Some (OSError e), dbp,
                      w\<lparr>issued := issued w @ [PTRACE_CONT (Pid dbp) 0], ptrace_replies := rs\<rparr>))"
proof -
  have 1: "\<exists>cs. issued (snd (snd (Step dbp w))) = issued w @ PTRACE_SINGLESTEP (Pid dbp) # cs"
    by (auto simp: Step_eq split: prod.splits option.splits sum.splits
             dest!: PtraceSingleStep_effect ProcessWait_effect PtraceGetRegs_effect)
  have 2: "\<exists>cs. issued (snd (snd (Continue dbp w))) = issued w @ PTRACE_CONT (Pid dbp) 0 # cs"
    by (auto simp: Continue_eq split: prod.splits option.splits sum.splits
             dest!: PtraceCont_effect ProcessWait_effect)
  have 3: "fst (Step (dbp\<lparr>ProcessState := ps\<rparr>) w) = fst (Step dbp w)
           \<and> snd (snd (Step (dbp\<lparr>ProcessState := ps\<rparr>) w)) = snd (snd (Step dbp w))"
    by (simp add: Step_eq split: prod.split option.split sum.split)
  have 4: "fst (Continue (dbp\<lparr>ProcessState := ps\<rparr>) w) = fst (Continue dbp w)
           \<and> snd (snd (Continue (dbp\<lparr>ProcessState := ps\<rparr>) w)) = snd (snd (Continue dbp w))"
    by (simp add: Continue_eq split: prod.split option.split sum.split)
  have 5: "Step dbp w = (Returns (Some (StepFailed (OSError e))), dbp,
                      w\<lparr>issued := issued w @ [PTRACE_SINGLESTEP (Pid dbp)], ptrace_replies := rs\<rparr>)
        \<and> Continue dbp w = (Some (OSError e), dbp,
                      w\<lparr>issued := issued w @ [PTRACE_CONT (Pid dbp) 0], ptrace_replies := rs\<rparr>)"
    if "ptrace_replies w = Some e # rs"
    using that by (simp add: op_defs syscall_defs)
  from 1 2 3 4 5 show ?thesis by blast
qed

theorem C5_trace_operation_first_witness:
  "ptrace_replies dead_world = [Some (Errno 3)]
   \<and> Step session_exited dead_world =
       (Returns (Some (StepFailed (OSError (Errno 3)))), session_exited,
        dead_world\<lparr>issued := issued dead_world @ [PTRACE_SINGLESTEP (Pid session_exited)],
                   ptrace_replies := []\<rparr>)
   \<and> Continue session_exited dead_world =
       (Some (OSError (Errno 3)), session_exited,
        dead_world\<lparr>issued := issued dead_world @ [PTRACE_CONT (Pid session_exited) 0],
                   ptrace_replies := []\<rparr>)"
proof -
  have h: "ptrace_replies dead_world = Some (Errno 3) # []" by (simp add: dead_world_def)
  from C5_trace_operation_first [of session_exited dead_world "Exited 0" "Errno 3" "[]"] h
  show ?thesis by blast
qed




text \<open>
  C7. The claim: for a program counter outside every known function the address
  resolution after a step yields no function and \<open>Step\<close> does not dereference it. The
  resolution does yield none for 0x500000, but \<open>Step\<close> reads \<open>fn.Name\<close> of the nil
  function: it panics, after the step, the wait and the register read have succeeded.
\<close>

theorem C7_Step_panics_outside_functions:
  "PCToLine (GoSymTable new_session) 0x500000 = ([], 0, None)
   \<and> Step new_session library_world =
       (Panics, new_session\<lparr>ProcessState := Stopped 5, Regs := \<lparr>Rip = 0x500000\<rparr>\<rparr>,
        library_world\<lparr>target := \<lparr>mem = mem (target quiet_world), regs = \<lparr>Rip = 0x500000\<rparr>\<rparr>,
              issued := [PTRACE_SINGLESTEP 42, WAIT 42, PTRACE_GETREGS 42],
              wait_replies := []\<rparr>)"
  by (simp add: op_defs syscall_defs example_defs Let_def PCToLine_def PCToFunc_def
        PtraceRegs_PC_def)

text \<open>
  C8, as stated, fails. The claim: when \<open>Continue\<close> stops at an installed breakpoint of
  \<open>f\<close>, the program counter it reports is the entry address of \<open>f\<close>, rewound from
  entry + 1, and the stop is classified as a hit of that breakpoint. On the concrete
  session the target stops one byte past the breakpoint of \<open>main.compute\<close>; \<open>Continue\<close>
  returns nil and nothing else, issues the continue and the wait only, leaves the target's
  program counter at entry + 1 and the session's registers as they were.
\<close>

theorem C8_Continue_leaves_pc:
  "BreakPoints session_set ''main.compute'' = Some bp_compute
   \<and> Addr bp_compute + 1 = 0x4010a1
   \<and> Continue session_set trap_world =
       (None, session_set\<lparr>ProcessState := Stopped 5\<rparr>,
        trap_world\<lparr>target := \<lparr>mem = mem (target world_set), regs = \<lparr>Rip = 0x4010a1\<rparr>\<rparr>,
              issued := issued trap_world @ [PTRACE_CONT 42 0, WAIT 42],
              wait_replies := []\<rparr>)
   \<and> Regs (session_set\<lparr>ProcessState := Stopped 5\<rparr>) = \<lparr>Rip = 0\<rparr>"
  by (simp add: op_defs syscall_defs example_defs Let_def)

text \<open>
  C8, amended. Whenever \<open>Continue\<close> returns without an error, also when the target has
  stopped one byte past an installed breakpoint, it has issued the continue trace
  operation and the wait and nothing else: the target, its program counter included, is
  as the wait found it, the session differs in \<open>ProcessState\<close> only, and nothing is
  printed. \<open>Continue\<close> returns an error value only: no program counter, no location and
  no classification of the stop.
\<close>

theorem C8_Continue_only_waits:
  assumes "Continue dbp w = (None, dbp', w')"
  shows "\<exists>ps t rs. wait_replies w = Inr (ps, t) # rs
           \<and> target w' = t
           \<and> dbp' = dbp\<lparr>ProcessState := ps\<rparr>
           \<and> issued w' = issued w @ [PTRACE_CONT (Pid dbp) 0, WAIT (Process dbp)]
           \<and> stdout w' = stdout w"
  using assms
  by (auto simp: Continue_eq split: prod.splits option.splits sum.splits
           dest!: PtraceCont_effect ProcessWait_effect)

theorem C8_Continue_only_waits_witness:
  "Continue session_set trap_world =
       (None, session_set\<lparr>ProcessState := Stopped 5\<rparr>,
        trap_world\<lparr>target := \<lparr>mem = mem (target world_set), regs = \<lparr>Rip = 0x4010a1\<rparr>\<rparr>,
              issued := issued trap_world @ [PTRACE_CONT 42 0, WAIT 42],
              wait_replies := []\<rparr>)
   \<and> wait_replies trap_world
       = [Inr (Stopped 5, \<lparr>mem = mem (target world_set), regs = \<lparr>Rip = 0x4010a1\<rparr>\<rparr>)]"
proof -
  note h = Continue_example
  have wr: "wait_replies trap_world
       = [Inr (Stopped 5, \<lparr>mem = mem (target world_set), regs = \<lparr>Rip = 0x4010a1\<rparr>\<rparr>)]"
    by (simp add: trap_world_def)
  from C8_Continue_only_waits [OF h] h wr show ?thesis
    by blast
qed

text \<open>
  C10. When the trace operation has failed, \<open>handleResult\<close> returns that error at once:
  the world is as it was, so no wait was issued, and the session is unchanged. The
  stored \<open>ProcessState\<close> changes only when the trace operation succeeded and the wait
  succeeded, to the state the wait reported. So for \<open>Continue\<close> and \<open>Step\<close>: when their
  trace operation fails, the error comes back (wrapped as "step failed" by \<open>Step\<close>), the
  trace operation is the only system call and the session is unchanged.
\<close>

theorem C10_handleResult_error_first:
  "handleResult dbp (Some e) w = (Some e, dbp, w)
   \<and> (handleResult dbp err w = (r, dbp', w') \<and> ProcessState dbp' \<noteq> ProcessState dbp \<longrightarrow>
        err = None \<and> r = None \<and> (\<exists>t rs. wait_replies w = Inr (ProcessState dbp', t) # rs))
   \<and> (PtraceCont (Pid dbp) 0 w = (Some e, w1) \<longrightarrow>
        Continue dbp w = (Some e, dbp, w1) \<and> issued w1 = issued w @ [PTRACE_CONT (Pid dbp) 0])
   \<and> (PtraceSingleStep (Pid dbp) w = (Some e, w1) \<longrightarrow>
        Step dbp w = (Returns (Some (StepFailed e)), dbp, w1)
        \<and> issued w1 = issued w @ [PTRACE_SINGLESTEP (Pid dbp)])"
proof -
  have 1: "handleResult dbp (Some e) w = (Some e, dbp, w)"
    by (simp add: handleResult_def)
  have 2: "err = None \<and> r = None \<and> (\<exists>t rs. wait_replies w = Inr (ProcessState dbp', t) # rs)"
    if "handleResult dbp err w = (r, dbp', w')" "ProcessState dbp' \<noteq> ProcessState dbp"
    using that
    by (auto simp: handleResult_def split: option.splits prod.splits sum.splits
             dest!: ProcessWait_effect)
  have 3: "Continue dbp w = (Some e, dbp, w1) \<and> issued w1 = issued w @ [PTRACE_CONT (Pid dbp) 0]"
    if "PtraceCont (Pid dbp) 0 w = (Some e, w1)"
    using that PtraceCont_effect [OF that] by (simp add: Continue_eq)
  have 4: "Step dbp w = (Returns (Some (StepFailed e)), dbp, w1)
        \<and> issued w1 = issued w @ [PTRACE_SINGLESTEP (Pid dbp)]"
    if "PtraceSingleStep (Pid dbp) w = (Some e, w1)"
    using that PtraceSingleStep_effect [OF that] by (simp add: Step_eq)
  from 1 2 3 4 show ?thesis by blast
qed

theorem C10_handleResult_error_first_witness:
  "handleResult session_exited (Some (OSError (Errno 3))) dead_world
     = (Some (OSError (Errno 3)), session_exited, dead_world)
   \<and> PtraceCont (Pid session_exited) 0 dead_world
       = (Some (OSError (Errno 3)), dead_world\<lparr>issued := [PTRACE_CONT 42 0], ptrace_replies := []\<rparr>)
   \<and> Continue session_exited dead_world
       = (Some (OSError (Errno 3)), session_exited,
          dead_world\<lparr>issued := [PTRACE_CONT 42 0], ptrace_replies := []\<rparr>)
   \<and> PtraceSingleStep (Pid session_exited) dead_world
       = (Some (OSError (Errno 3)),
          dead_world\<lparr>issued := [PTRACE_SINGLESTEP 42], ptrace_replies := []\<rparr>)
   \<and> Step session_exited dead_world
       = (Returns (Some (StepFailed (OSError (Errno 3)))), session_exited,
          dead_world\<lparr>issued := [PTRACE_SINGLESTEP 42], ptrace_replies := []\<rparr>)
   \<and> handleResult new_session None trap_world
       = (None, new_session\<lparr>ProcessState := Stopped 5\<rparr>,
          trap_world\<lparr>target := \<lparr>mem = mem (target world_set), regs = \<lparr>Rip = 0x4010a1\<rparr>\<rparr>,
                issued := issued trap_world @ [WAIT 42], wait_replies := []\<rparr>)
   \<and> ProcessState (new_session\<lparr>ProcessState := Stopped 5\<rparr>) \<noteq> ProcessState new_session
   \<and> wait_replies trap_world
       = [Inr (Stopped 5, \<lparr>mem = mem (target world_set), regs = \<lparr>Rip = 0x4010a1\<rparr>\<rparr>)]"
proof -
  have c: "PtraceCont (Pid session_exited) 0 dead_world
       = (Some (OSError (Errno 3)), dead_world\<lparr>issued := [PTRACE_CONT 42 0], ptrace_replies := []\<rparr>)"
    by (simp add: syscall_defs example_defs)
  have s: "PtraceSingleStep (Pid session_exited) dead_world
       = (Some (OSError (Errno 3)),
          dead_world\<lparr>issued := [PTRACE_SINGLESTEP 42], ptrace_replies := []\<rparr>)"
    by (simp add: syscall_defs example_defs)
  have h: "handleResult new_session None trap_world
       = (None, new_session\<lparr>ProcessState := Stopped 5\<rparr>,
          trap_world\<lparr>target := \<lparr>mem = mem (target world_set), regs = \<lparr>Rip = 0x4010a1\<rparr>\<rparr>,
                issued := issued trap_world @ [WAIT 42], wait_replies := []\<rparr>)"
    by (simp add: handleResult_def syscall_defs example_defs)
  have n: "ProcessState (new_session\<lparr>ProcessState := Stopped 5\<rparr>) \<noteq> ProcessState new_session"
    by (simp add: new_session_def)
  have wr: "wait_replies trap_world
       = [Inr (Stopped 5, \<lparr>mem = mem (target world_set), regs = \<lparr>Rip = 0x4010a1\<rparr>\<rparr>)]"
    by (simp add: trap_world_def)
  note t = C10_handleResult_error_first [of session_exited "OSError (Errno 3)" dead_world]
  from t [of None None session_exited dead_world
            "dead_world\<lparr>issued := [PTRACE_CONT 42 0], ptrace_replies := []\<rparr>"] c
  have c': "Continue session_exited dead_world
       = (Some (OSError (Errno 3)), session_exited,
          dead_world\<lparr>issued := [PTRACE_CONT 42 0], ptrace_replies := []\<rparr>)"
    by blast
  from t [of None None session_exited dead_world
            "dead_world\<lparr>issued := [PTRACE_SINGLESTEP 42], ptrace_replies := []\<rparr>"] s
  have s': "Step session_exited dead_world
       = (Returns (Some (StepFailed (OSError (Errno 3)))), session_exited,
          dead_world\<lparr>issued := [PTRACE_SINGLESTEP 42], ptrace_replies := []\<rparr>)"
    by blast
  from t [of None None session_exited dead_world dead_world]
  have e: "handleResult session_exited (Some (OSError (Errno 3))) dead_world
     = (Some (OSError (Errno 3)), session_exited, dead_world)"
    by blast
  from c c' s s' h n e wr show ?thesis by blast
qed

end
